theory Spec2Isabelle
  imports Main
begin

section \<open>The game state-transition engine of main.ts\<close>

text \<open>
  A shallow embedding of the pure part of \<^verbatim>\<open>src/main.ts\<close>: the state, the collision
  check, placement, line clearing, the landing sequence \<^verbatim>\<open>processCollision\<close> and the
  \<^verbatim>\<open>apply\<close> methods of the eight action classes.

  Conventions of the embedding.
  \<^item> JavaScript numbers that hold coordinates and scores are integers far below
    \<open>2^53\<close>; they are modelled as \<open>int\<close> (counters as \<open>nat\<close>).
    \<^verbatim>\<open>Math.floor(a / 1000)\<close> on such numbers is \<open>a div 1000\<close>.
  \<^item> Reading an array outside its range gives \<^verbatim>\<open>undefined\<close> (\<open>None\<close> of
    \<open>index\<close>); reading a property of \<^verbatim>\<open>undefined\<close> throws a
    \<^verbatim>\<open>TypeError\<close>, which is the value \<open>Inl TypeError\<close> of a result.
  \<^item> \<^verbatim>\<open>Math.random()\<close> is an input: every call of
    \<^verbatim>\<open>generateANewTetrimino\<close> takes the two numbers it draws.
  \<^item> The \<^verbatim>\<open>while\<close> loop of \<^verbatim>\<open>instantDROP\<close> may run forever; it is a
    partial function into \<open>option\<close>, and \<open>None\<close> is "does not return".
\<close>

subsection \<open>Constants and types\<close>

definition GRID_WIDTH :: int where
  "GRID_WIDTH = 10"

definition GRID_HEIGHT :: int where
  "GRID_HEIGHT = 20"

record Block =
  x :: int
  y :: int
  color :: string

type_synonym Tetrimino = "Block list"

record State =
  grid :: "bool list list"
  currentTetrimino :: Tetrimino
  nextTetrimino :: Tetrimino
  gameOver :: bool
  userScore :: int
  userLevel :: int
  highScore :: int
  paused :: bool

datatype error = TypeError

text \<open>\<^verbatim>\<open>xs[i]\<close> for a number \<open>i\<close>: the element, or \<^verbatim>\<open>undefined\<close> when \<open>i\<close> is
  negative or not below the length.\<close>

definition index :: "'a list \<Rightarrow> int \<Rightarrow> 'a option" where
  "index xs i = (if 0 \<le> i \<and> i < int (length xs) then Some (xs ! nat i) else None)"

subsection \<open>The piece generator\<close>

definition mk :: "int \<Rightarrow> int \<Rightarrow> string \<Rightarrow> Block" where
  "mk a b c = \<lparr>x = a, y = b, color = c\<rparr>"

definition shapes :: "Tetrimino list" where
  "shapes =
    [[mk 0 0 ''cyan'', mk 0 1 ''cyan'', mk 0 2 ''cyan'', mk 0 3 ''cyan''],
     [mk 0 0 ''yellow'', mk 1 0 ''yellow'', mk 0 1 ''yellow'', mk 1 1 ''yellow''],
     [mk 1 0 ''blue'', mk 2 0 ''blue'', mk 0 1 ''blue'', mk 1 1 ''blue''],
     [mk 0 0 ''green'', mk 1 0 ''green'', mk 1 1 ''green'', mk 2 1 ''green''],
     [mk 0 0 ''orange'', mk 0 1 ''orange'', mk 0 2 ''orange'', mk 1 2 ''orange''],
     [mk 0 0 ''red'', mk 0 1 ''red'', mk 0 2 ''red'', mk 1 2 ''red''],
     [mk 1 0 ''purple'', mk 0 1 ''purple'', mk 1 1 ''purple'', mk 2 1 ''purple'']]"

text \<open>One call of \<^verbatim>\<open>generateANewTetrimino\<close> draws
  \<^verbatim>\<open>shapeIndex = Math.floor(Math.random() * 7)\<close> and then
  \<^verbatim>\<open>randomChance = Math.floor(Math.random() * 101)\<close>. A draw is the pair of the two;
  \<^verbatim>\<open>Math.random()\<close> is below 1, so \<open>shapeIndex < 7\<close> and \<open>randomChance \<le> 100\<close>.\<close>

type_synonym draw = "nat \<times> nat"

definition valid_draw :: "draw \<Rightarrow> bool" where
  "valid_draw d = (fst d < 7 \<and> snd d \<le> 100)"

definition shift :: "int \<Rightarrow> int \<Rightarrow> Tetrimino \<Rightarrow> Tetrimino" where
  "shift dx dy t = map (\<lambda>block. block\<lparr>x := x block + dx, y := y block + dy\<rparr>) t"

definition generateANewTetrimino :: "draw \<Rightarrow> Tetrimino" where
  "generateANewTetrimino d =
    (let xOffset = (GRID_WIDTH - 2) div 2;
         yOffset = 0;
         shapeIndex = fst d;
         goldTetrimino =
           [mk (xOffset + 0) 0 ''gold'', mk (xOffset + 0) 1 ''gold'',
            mk (xOffset + 1) 1 ''gold'', mk (xOffset + 1) 2 ''gold''];
         randomChance = snd d;
         x2Offset = (GRID_WIDTH - 10) div 2
     in if randomChance \<le> 5 then shift x2Offset yOffset goldTetrimino
        else shift xOffset yOffset (shapes ! shapeIndex))"

text \<open>The module constant \<^verbatim>\<open>initialState\<close> is built once, from two draws.\<close>

definition initialState :: "draw \<Rightarrow> draw \<Rightarrow> State" where
  "initialState d1 d2 =
    \<lparr>grid = replicate 20 (replicate 10 False),
     currentTetrimino = generateANewTetrimino d1,
     nextTetrimino = generateANewTetrimino d2,
     gameOver = False,
     userScore = 0,
     userLevel = 1,
     highScore = 0,
     paused = False\<rparr>"

text \<open>The global template \<^verbatim>\<open>goldTetrimino\<close> (not the one local to the generator).\<close>

definition goldTetrimino :: Tetrimino where
  "goldTetrimino = [mk 0 0 ''gold'']"

subsection \<open>Collision and bounds\<close>

text \<open>\<^verbatim>\<open>movedTetrimino.some(block => block.y >= GRID_HEIGHT || grid[block.y][block.x])\<close>:
  \<^verbatim>\<open>some\<close> visits the blocks in order and stops at the first true; \<^verbatim>\<open>grid[block.y]\<close> is
  \<^verbatim>\<open>undefined\<close> for a row index outside the grid and indexing it throws; a column
  outside the row reads \<^verbatim>\<open>undefined\<close>, which is falsy.\<close>

fun isCollisionDetected :: "Tetrimino \<Rightarrow> bool list list \<Rightarrow> error + bool" where
  "isCollisionDetected [] g = Inr False"
| "isCollisionDetected (block # rest) g =
     (if y block \<ge> GRID_HEIGHT then Inr True
      else (case index g (y block) of
              None \<Rightarrow> Inl TypeError
            | Some row \<Rightarrow>
                (if index row (x block) = Some True then Inr True
                 else isCollisionDetected rest g)))"

text \<open>\<^verbatim>\<open>willExceedEdges\<close> reads \<^verbatim>\<open>grid[0].length\<close> first, which throws on a grid
  without rows.\<close>

definition willExceedEdges :: "Tetrimino \<Rightarrow> bool list list \<Rightarrow> error + bool" where
  "willExceedEdges t g =
    (case index g 0 of
       None \<Rightarrow> Inl TypeError
     | Some row0 \<Rightarrow>
         (let gridWidth = int (length row0); gridHeight = int (length g)
          in Inr (list_ex (\<lambda>block. x block < 0 \<or> x block \<ge> gridWidth \<or> y block \<ge> gridHeight) t)))"

subsection \<open>Placement and line clearing\<close>

text \<open>The callback of \<^verbatim>\<open>tetrimino.reduce\<close> in \<^verbatim>\<open>placeTetrimino\<close>: a new grid in
  which the cell at the block's row and column is true; a block outside the grid
  matches no index and changes nothing.\<close>

definition placeBlock :: "bool list list \<Rightarrow> Block \<Rightarrow> bool list list" where
  "placeBlock newGrid block =
    map (\<lambda>(rowIndex, row).
          if int rowIndex = y block
          then map (\<lambda>(colIndex, cell). if int colIndex = x block then True else cell)
                 (enumerate 0 row)
          else row)
      (enumerate 0 newGrid)"

definition placeTetrimino :: "Tetrimino \<Rightarrow> bool list list \<Rightarrow> bool list list" where
  "placeTetrimino t g = foldl placeBlock g t"

record ClearState =
  cgrid :: "bool list list"
  linesCleared :: nat
  goldLineCleared :: bool

definition emptyRow :: "nat \<Rightarrow> bool list" where
  "emptyRow n = replicate n False"

definition complete :: "bool list \<Rightarrow> bool" where
  "complete row = list_all (\<lambda>cell. cell) row"

text \<open>The callback of \<^verbatim>\<open>grid.reduce\<close> in \<^verbatim>\<open>clearLines\<close>.\<close>

definition clearStep :: "Tetrimino \<Rightarrow> ClearState \<Rightarrow> bool list \<Rightarrow> ClearState" where
  "clearStep gold st row =
    (if complete row then
       (let goldLine =
              list_ex (\<lambda>i. list_ex (\<lambda>block. x block = int i \<and> y block = int (linesCleared st)) gold)
                [0..<length row]
        in \<lparr>cgrid = cgrid st,
            linesCleared = linesCleared st + 1,
            goldLineCleared = (goldLine \<or> goldLineCleared st)\<rparr>)
     else \<lparr>cgrid = cgrid st @ [row],
           linesCleared = linesCleared st,
           goldLineCleared = goldLineCleared st\<rparr>)"

definition clearLines :: "bool list list \<Rightarrow> Tetrimino \<Rightarrow> error + ClearState" where
  "clearLines g gold =
    (let result = foldl (clearStep gold) \<lparr>cgrid = [], linesCleared = 0, goldLineCleared = False\<rparr> g
     in case index g 0 of
          None \<Rightarrow> Inl TypeError
        | Some row0 \<Rightarrow>
            (let emptyRows = replicate (linesCleared result) (emptyRow (length row0))
             in Inr \<lparr>cgrid = emptyRows @ cgrid result,
                     linesCleared = linesCleared result,
                     goldLineCleared = goldLineCleared result\<rparr>))"

subsection \<open>The landing sequence\<close>

text \<open>\<^verbatim>\<open>processCollision\<close>. The source also draws a piece into
  \<^verbatim>\<open>newNextTetrimino\<close> and never reads it; the draw is left out.\<close>

definition processCollision :: "State \<Rightarrow> error + State" where
  "processCollision s =
    (if paused s then Inr s
     else
       (let newGrid = placeTetrimino (currentTetrimino s) (grid s)
        in case clearLines newGrid goldTetrimino of
             Inl e \<Rightarrow> Inl e
           | Inr cl \<Rightarrow>
               (let newScore = userScore s + int (linesCleared cl) * 100;
                    goldLines = filter (\<lambda>block. y block = int (linesCleared cl) - 1) goldTetrimino;
                    goldScoreIncrease =
                      (if goldLineCleared cl then int (length goldLines) * 200 else 0);
                    newHighScore = max (highScore s) (newScore + goldScoreIncrease);
                    newLevel = newScore div 1000 + 1;
                    newTetrimino = nextTetrimino s
                in case isCollisionDetected newTetrimino (cgrid cl) of
                     Inl e \<Rightarrow> Inl e
                   | Inr True \<Rightarrow>
                       Inr (s\<lparr>gameOver := True,
                              userScore := newScore + goldScoreIncrease,
                              highScore := newHighScore\<rparr>)
                   | Inr False \<Rightarrow>
                       Inr \<lparr>grid = cgrid cl,
                            currentTetrimino = newTetrimino,
                            nextTetrimino = newTetrimino,
                            gameOver = False,
                            userScore = newScore + goldScoreIncrease,
                            userLevel = newLevel,
                            highScore = newHighScore,
                            paused = paused s\<rparr>)))"

subsection \<open>The actions\<close>

text \<open>Each \<^verbatim>\<open>apply\<close> evaluates its \<^verbatim>\<open>const\<close> declarations in order, so a collision
  check that throws makes the whole action throw, whatever the other checks say.\<close>

definition moveTetriminoLeft_apply :: "State \<Rightarrow> error + State" where
  "moveTetriminoLeft_apply s =
    (let newTetrimino = map (\<lambda>block. block\<lparr>x := x block - 1\<rparr>) (currentTetrimino s);
         isLeftCollision = list_ex (\<lambda>block. x block < 0) newTetrimino
     in case isCollisionDetected newTetrimino (grid s) of
          Inl e \<Rightarrow> Inl e
        | Inr isGridCollision \<Rightarrow>
            Inr (if isLeftCollision \<or> isGridCollision then s
                 else s\<lparr>currentTetrimino := newTetrimino\<rparr>))"

definition moveTetriminoRight_apply :: "State \<Rightarrow> error + State" where
  "moveTetriminoRight_apply s =
    (let newTetrimino = map (\<lambda>block. block\<lparr>x := x block + 1\<rparr>) (currentTetrimino s);
         isRightCollision = list_ex (\<lambda>block. x block \<ge> GRID_WIDTH) newTetrimino
     in case isCollisionDetected newTetrimino (grid s) of
          Inl e \<Rightarrow> Inl e
        | Inr isGridCollision \<Rightarrow>
            Inr (if isRightCollision \<or> isGridCollision then s
                 else s\<lparr>currentTetrimino := newTetrimino\<rparr>))"

text \<open>The downward step shared by \<^verbatim>\<open>Tick\<close>, \<^verbatim>\<open>moveTetriminoDown\<close> and the loop of
  \<^verbatim>\<open>instantDROP\<close>: \<^verbatim>\<open>map(block => ({...block, y: block.y + 1}))\<close>.\<close>

definition down :: "Tetrimino \<Rightarrow> Tetrimino" where
  "down t = map (\<lambda>block. block\<lparr>y := y block + 1\<rparr>) t"

definition up :: "Tetrimino \<Rightarrow> Tetrimino" where
  "up t = map (\<lambda>block. block\<lparr>y := y block - 1\<rparr>) t"

definition moveTetriminoDown_apply :: "draw \<Rightarrow> State \<Rightarrow> error + State" where
  "moveTetriminoDown_apply d s =
    (let newTetrimino = down (currentTetrimino s)
     in case isCollisionDetected newTetrimino (grid s) of
          Inl e \<Rightarrow> Inl e
        | Inr isGridCollision \<Rightarrow>
            (let next = generateANewTetrimino d
             in if isGridCollision
                then (case processCollision s of
                        Inl e \<Rightarrow> Inl e
                      | Inr s' \<Rightarrow> Inr (s'\<lparr>nextTetrimino := next\<rparr>))
                else Inr (s\<lparr>currentTetrimino := newTetrimino, nextTetrimino := next\<rparr>)))"

text \<open>\<^verbatim>\<open>rotateTetrimino\<close>: \<^verbatim>\<open>tetrimino[0]\<close> is only read inside the callback of
  \<^verbatim>\<open>map\<close>, which an empty piece never calls.\<close>

fun rotateTetrimino :: "Tetrimino \<Rightarrow> Tetrimino" where
  "rotateTetrimino [] = []"
| "rotateTetrimino (origin # rest) =
     map (\<lambda>block. \<lparr>x = x origin - (y block - y origin),
                    y = y origin + (x block - x origin),
                    color = color block\<rparr>)
       (origin # rest)"

definition Rotate_apply :: "State \<Rightarrow> error + State" where
  "Rotate_apply s =
    (let rotatedTetrimino = rotateTetrimino (currentTetrimino s)
     in case isCollisionDetected rotatedTetrimino (grid s) of
          Inl e \<Rightarrow> Inl e
        | Inr isGridCollision \<Rightarrow>
            (case willExceedEdges rotatedTetrimino (grid s) of
               Inl e \<Rightarrow> Inl e
             | Inr willExceedEdgesCondition \<Rightarrow>
                 Inr (if isGridCollision \<or> willExceedEdgesCondition then s
                      else s\<lparr>currentTetrimino := rotatedTetrimino\<rparr>)))"

text \<open>The \<^verbatim>\<open>while\<close> loop of \<^verbatim>\<open>instantDROP\<close>: it returns the first piece, going down
  from \<open>t\<close>, that collides, throws when the check throws, and does not return when
  no piece on the way collides (an empty piece never does).\<close>

partial_function (option) dropLoop :: "Tetrimino \<Rightarrow> bool list list \<Rightarrow> (error + Tetrimino) option" where
  "dropLoop t g =
    (case isCollisionDetected t g of
       Inl e \<Rightarrow> Some (Inl e)
     | Inr c \<Rightarrow> if c then Some (Inr t) else dropLoop (down t) g)"

declare dropLoop.simps [code]

definition instantDROP_apply :: "draw \<Rightarrow> State \<Rightarrow> (error + State) option" where
  "instantDROP_apply d s =
    (case dropLoop (currentTetrimino s) (grid s) of
       None \<Rightarrow> None
     | Some (Inl e) \<Rightarrow> Some (Inl e)
     | Some (Inr t) \<Rightarrow>
         (let newTetrimino = up t
          in case isCollisionDetected newTetrimino (grid s) of
               Inl e \<Rightarrow> Some (Inl e)
             | Inr True \<Rightarrow>
                 (case processCollision s of
                    Inl e \<Rightarrow> Some (Inl e)
                  | Inr s' \<Rightarrow> Some (Inr (s'\<lparr>nextTetrimino := generateANewTetrimino d\<rparr>)))
             | Inr False \<Rightarrow>
                 Some (Inr (s\<lparr>currentTetrimino := newTetrimino,
                              nextTetrimino := generateANewTetrimino d\<rparr>))))"

text \<open>\<^verbatim>\<open>Restart\<close> copies the module constant \<^verbatim>\<open>initialState\<close>, so it takes the two
  draws that built it.\<close>

definition Restart_apply :: "draw \<Rightarrow> draw \<Rightarrow> State \<Rightarrow> State" where
  "Restart_apply d1 d2 s = (initialState d1 d2)\<lparr>highScore := highScore s\<rparr>"

text \<open>A \<^verbatim>\<open>TogglePauseResume\<close> object holds the private field \<^verbatim>\<open>isPaused\<close>
  (initially false); \<^verbatim>\<open>apply\<close> reads and writes that field, never \<^verbatim>\<open>s.paused\<close>. The
  model takes the field and returns it updated with the new state.\<close>

definition TogglePauseResume_apply :: "bool \<Rightarrow> State \<Rightarrow> bool \<times> State" where
  "TogglePauseResume_apply isPaused s =
    (if \<not> isPaused then (True, s\<lparr>paused := True\<rparr>)
     else (False, s\<lparr>paused := False\<rparr>))"

text \<open>\<^verbatim>\<open>new TogglePauseResume()\<close>, as \<^verbatim>\<open>main\<close> builds one for every key press.\<close>

definition TogglePauseResume_new :: bool where
  "TogglePauseResume_new = False"

text \<open>\<^verbatim>\<open>Tick.apply\<close>; \<open>elapsed\<close> is the constructor's field, which \<^verbatim>\<open>apply\<close> does
  not read.\<close>

definition Tick_apply :: "nat \<Rightarrow> draw \<Rightarrow> State \<Rightarrow> error + State" where
  "Tick_apply elapsed d s =
    (let movedTetrimino = down (currentTetrimino s)
     in case isCollisionDetected movedTetrimino (grid s) of
          Inl e \<Rightarrow> Inl e
        | Inr True \<Rightarrow>
            (case processCollision s of
               Inl e \<Rightarrow> Inl e
             | Inr s' \<Rightarrow> Inr (s'\<lparr>nextTetrimino := generateANewTetrimino d\<rparr>))
        | Inr False \<Rightarrow>
            Inr (s\<lparr>currentTetrimino := movedTetrimino,
                   nextTetrimino := generateANewTetrimino d\<rparr>))"

subsection \<open>The reducer\<close>

text \<open>\<^verbatim>\<open>main\<close> folds the merged stream of actions over the state with
  \<^verbatim>\<open>scan((s, action) => action.apply(s), initialState)\<close>. An action is the object the
  stream carries: its class, the fields of the object, and the draw its \<^verbatim>\<open>apply\<close> makes.
  An \<^verbatim>\<open>apply\<close> that throws ends the stream, so no state follows it.\<close>

datatype Action =
    Tick nat draw
  | moveTetriminoLeft
  | moveTetriminoRight
  | moveTetriminoDown draw
  | Rotate
  | instantDROP draw
  | Restart
  | TogglePauseResume bool

fun applyAction :: "draw \<Rightarrow> draw \<Rightarrow> Action \<Rightarrow> State \<Rightarrow> (error + State) option" where
  "applyAction d1 d2 (Tick elapsed d) s = Some (Tick_apply elapsed d s)"
| "applyAction d1 d2 moveTetriminoLeft s = Some (moveTetriminoLeft_apply s)"
| "applyAction d1 d2 moveTetriminoRight s = Some (moveTetriminoRight_apply s)"
| "applyAction d1 d2 (moveTetriminoDown d) s = Some (moveTetriminoDown_apply d s)"
| "applyAction d1 d2 Rotate s = Some (Rotate_apply s)"
| "applyAction d1 d2 (instantDROP d) s = instantDROP_apply d s"
| "applyAction d1 d2 Restart s = Some (Inr (Restart_apply d1 d2 s))"
| "applyAction d1 d2 (TogglePauseResume isPaused) s =
     Some (Inr (snd (TogglePauseResume_apply isPaused s)))"

fun validAction :: "Action \<Rightarrow> bool" where
  "validAction (Tick elapsed d) = valid_draw d"
| "validAction (moveTetriminoDown d) = valid_draw d"
| "validAction (instantDROP d) = valid_draw d"
| "validAction a = True"

inductive reachable :: "draw \<Rightarrow> draw \<Rightarrow> State \<Rightarrow> bool" for d1 d2 where
  initial: "valid_draw d1 \<Longrightarrow> valid_draw d2 \<Longrightarrow> reachable d1 d2 (initialState d1 d2)"
| step: "reachable d1 d2 s \<Longrightarrow> validAction a \<Longrightarrow> applyAction d1 d2 a s = Some (Inr s')
          \<Longrightarrow> reachable d1 d2 s'"

subsection \<open>States used as examples\<close>

text \<open>The initial state with a cyan current piece and a yellow next piece.\<close>

definition startState :: State where
  "startState = initialState (0, 50) (1, 50)"

text \<open>The same state after the pause key.\<close>

definition pausedState :: State where
  "pausedState = startState\<lparr>paused := True\<rparr>"

text \<open>The initial state whose current piece is the blue one (shape 3).\<close>

definition blueState :: State where
  "blueState = initialState (2, 50) (1, 50)"

text \<open>A state at 800 points: the bottom row lacks only column 4, and the cyan piece
  stands in column 4 on the floor (rows 16 to 19).\<close>

definition bonusState :: State where
  "bonusState =
    \<lparr>grid = replicate 19 (replicate 10 False) @ [(replicate 10 True)[4 := False]],
     currentTetrimino = (down ^^ 16) (generateANewTetrimino (0, 50)),
     nextTetrimino = generateANewTetrimino (1, 50),
     gameOver = False,
     userScore = 800,
     userLevel = 1,
     highScore = 800,
     paused = False\<rparr>"

text \<open>The initial state with a cyan current and a cyan next piece: the next piece
  spawns where the current one stands.\<close>

definition stackedState :: State where
  "stackedState = initialState (0, 50) (0, 50)"

text \<open>\<open>startState\<close> after the drop key: the cyan piece on the floor, a blue preview.\<close>

definition droppedState :: State where
  "droppedState =
    startState\<lparr>currentTetrimino := (down ^^ 16) (currentTetrimino startState),
               nextTetrimino := generateANewTetrimino (2, 50)\<rparr>"

text \<open>\<open>droppedState\<close> after the next tick: the cyan piece is part of the grid.\<close>

definition landedState :: State where
  "landedState =
    \<lparr>grid = replicate 16 (replicate 10 False) @ replicate 4 ((replicate 10 False)[4 := True]),
     currentTetrimino = generateANewTetrimino (2, 50),
     nextTetrimino = generateANewTetrimino (3, 50),
     gameOver = False,
     userScore = 0,
     userLevel = 1,
     highScore = 0,
     paused = False\<rparr>"

subsection \<open>Notions of the specification\<close>

text \<open>The shape of the grid: 20 rows of 10 cells.\<close>

definition gridShape :: "bool list list \<Rightarrow> bool" where
  "gridShape g = (length g = 20 \<and> (\<forall>row\<in>set g. length row = 10))"

text \<open>The instant drop as the specification words it (not the source): move the
  piece down while nothing collides, back up one row, then run the landing sequence
  on the piece at that position, in the same transition.\<close>

definition instantDrop_spec :: "draw \<Rightarrow> State \<Rightarrow> (error + State) option" where
  "instantDrop_spec d s =
    (case dropLoop (currentTetrimino s) (grid s) of
       None \<Rightarrow> None
     | Some (Inl e) \<Rightarrow> Some (Inl e)
     | Some (Inr t) \<Rightarrow>
         (case processCollision (s\<lparr>currentTetrimino := up t\<rparr>) of
            Inl e \<Rightarrow> Some (Inl e)
          | Inr s' \<Rightarrow> Some (Inr (s'\<lparr>nextTetrimino := generateANewTetrimino d\<rparr>))))"

section \<open>Properties\<close>

subsection \<open>Tick while paused\<close>

text \<open>
  C1. The claim: for every state with \<open>paused = true\<close>, \<^verbatim>\<open>Tick\<close> returns the state
  unchanged. \<^verbatim>\<open>Tick.apply\<close> carries the comment "Check if the game is paused" and
  no such check: on the paused initial state the piece moves down one row and the
  preview is drawn again, so the result differs from the input.
\<close>

theorem Tick_paused_moves_piece:
  "Tick_apply 0 (2, 50) pausedState =
     Inr (pausedState\<lparr>currentTetrimino := down (currentTetrimino pausedState),
                      nextTetrimino := generateANewTetrimino (2, 50)\<rparr>)
   \<and> Tick_apply 0 (2, 50) pausedState \<noteq> Inr pausedState"
  by code_simp

text \<open>In general: whenever the piece one row down is free, \<^verbatim>\<open>Tick\<close> moves it,
  whatever \<open>paused\<close> says.\<close>

lemma Tick_ignores_paused:
  "isCollisionDetected (down (currentTetrimino s)) (grid s) = Inr False \<Longrightarrow>
   Tick_apply elapsed d s =
     Inr (s\<lparr>currentTetrimino := down (currentTetrimino s),
            nextTetrimino := generateANewTetrimino d\<rparr>)"
  by (simp add: Tick_apply_def)

subsection \<open>The pause key\<close>

text \<open>
  C2. The claim: \<^verbatim>\<open>TogglePauseResume\<close> negates \<open>paused\<close>, so a paused state is resumed.
  \<^verbatim>\<open>apply\<close> branches on the object's own field, and \<^verbatim>\<open>main\<close> builds a new object
  (field false) for every key press: applied to a paused state it returns the
  state still paused.
\<close>

theorem TogglePauseResume_fresh_keeps_paused:
  "snd (TogglePauseResume_apply TogglePauseResume_new pausedState) = pausedState
   \<and> paused (snd (TogglePauseResume_apply TogglePauseResume_new pausedState)) = True
   \<and> paused pausedState = True"
  by code_simp

text \<open>A new object always takes the pausing branch.\<close>

lemma TogglePauseResume_new_pauses:
  "TogglePauseResume_apply TogglePauseResume_new s = (True, s\<lparr>paused := True\<rparr>)"
  by (simp add: TogglePauseResume_apply_def TogglePauseResume_new_def)

subsection \<open>Score and level on landing\<close>

text \<open>
  C3. The claim: after a landing the level is \<open>floor(newScore / 1000) + 1\<close> of the
  full new score, gold bonus included. \<^verbatim>\<open>processCollision\<close> stores
  \<^verbatim>\<open>newScore + goldScoreIncrease\<close> as score and high score but computes the level from
  \<^verbatim>\<open>newScore\<close> alone: landing the cyan piece of \<open>bonusState\<close> clears one line
  (100 points) with the bonus of 200, the score becomes 1100 and the level stays 1,
  where the claim gives 2.
\<close>

theorem processCollision_level_ignores_bonus:
  "map_sum id userScore (processCollision bonusState) = Inr 1100
   \<and> map_sum id userLevel (processCollision bonusState) = Inr 1
   \<and> map_sum id (\<lambda>s'. userScore s' div 1000 + 1) (processCollision bonusState) = Inr 2"
  by code_simp

text \<open>In general, for a landing that returns: the score is the old score plus 100 a
  line plus the bonus (200, and only when exactly one line was cleared, since the
  template has one block, in row 0); the level is computed from the score without
  the bonus, and is left as it was when the game is over.\<close>

lemma processCollision_score_level:
  assumes "\<not> paused s"
    and "clearLines (placeTetrimino (currentTetrimino s) (grid s)) goldTetrimino = Inr cl"
    and "processCollision s = Inr s'"
  shows "userScore s' = userScore s + int (linesCleared cl) * 100
           + (if goldLineCleared cl \<and> linesCleared cl = 1 then 200 else 0)"
    and "userLevel s' =
           (if gameOver s' then userLevel s
            else (userScore s + int (linesCleared cl) * 100) div 1000 + 1)"
  using assms
  by (auto simp: processCollision_def Let_def goldTetrimino_def mk_def
        split: sum.splits bool.splits)

subsection \<open>The collision check on a negative row\<close>

text \<open>
  C5. The claim: \<^verbatim>\<open>isCollisionDetected\<close> returns without error for every piece, also
  one with a block in a negative row. Rotating the blue piece at its spawn position
  puts a block in row \<open>-1\<close>; \<^verbatim>\<open>grid[-1]\<close> is \<^verbatim>\<open>undefined\<close> and \<^verbatim>\<open>grid[-1][4]\<close>
  throws, so the check, and \<^verbatim>\<open>Rotate.apply\<close> with it, ends in a \<^verbatim>\<open>TypeError\<close>.
\<close>

theorem isCollisionDetected_throws_on_negative_row:
  "rotateTetrimino (currentTetrimino blueState) =
     [mk 5 0 ''blue'', mk 5 1 ''blue'', mk 4 (- 1) ''blue'', mk 4 0 ''blue'']
   \<and> isCollisionDetected (rotateTetrimino (currentTetrimino blueState)) (grid blueState)
       = Inl TypeError
   \<and> Rotate_apply blueState = Inl TypeError"
  by code_simp

text \<open>On pieces without a negative row (and a grid of at least \<open>GRID_HEIGHT\<close> rows)
  the check returns, and returns what the claim says: true exactly when a block is
  in row \<open>GRID_HEIGHT\<close> or below, or on an occupied cell.\<close>

lemma isCollisionDetected_nonnegative:
  "\<forall>b\<in>set t. 0 \<le> y b \<Longrightarrow> GRID_HEIGHT \<le> int (length g) \<Longrightarrow>
   isCollisionDetected t g =
     Inr (\<exists>b\<in>set t. GRID_HEIGHT \<le> y b \<or>
            (\<exists>row. index g (y b) = Some row \<and> index row (x b) = Some True))"
  by (induction t) (auto simp: index_def)

subsection \<open>Restart\<close>

text \<open>
  C8. \<^verbatim>\<open>Restart.apply(s)\<close> has the high score of \<open>s\<close>, and every other field is the
  field of the initial state: the empty 20 by 10 grid, the initial current and next
  pieces, score 0, level 1, not paused, not over.
\<close>

theorem Restart_keeps_highScore:
  "highScore (Restart_apply d1 d2 s) = highScore s
   \<and> grid (Restart_apply d1 d2 s) = grid (initialState d1 d2)
   \<and> grid (Restart_apply d1 d2 s) = replicate 20 (replicate 10 False)
   \<and> currentTetrimino (Restart_apply d1 d2 s) = currentTetrimino (initialState d1 d2)
   \<and> nextTetrimino (Restart_apply d1 d2 s) = nextTetrimino (initialState d1 d2)
   \<and> gameOver (Restart_apply d1 d2 s) = False
   \<and> userScore (Restart_apply d1 d2 s) = 0
   \<and> userLevel (Restart_apply d1 d2 s) = 1
   \<and> paused (Restart_apply d1 d2 s) = False"
  by (simp add: Restart_apply_def initialState_def)

subsection \<open>Line clearing\<close>

text \<open>What the \<^verbatim>\<open>reduce\<close> of \<^verbatim>\<open>clearLines\<close> leaves in each field of its state.\<close>

lemma cgrid_foldl_clearStep:
  "cgrid (foldl (clearStep gold) st g) = cgrid st @ filter (\<lambda>row. \<not> complete row) g"
  by (induction g arbitrary: st) (simp_all add: clearStep_def Let_def)

lemma linesCleared_foldl_clearStep:
  "linesCleared (foldl (clearStep gold) st g) = linesCleared st + length (filter complete g)"
  by (induction g arbitrary: st) (simp_all add: clearStep_def Let_def)

lemma goldLine_template:
  "list_ex (\<lambda>i. list_ex (\<lambda>block. x block = int i \<and> y block = int n) goldTetrimino) [0..<length row]
     = (row \<noteq> [] \<and> n = 0)"
  by (auto simp: goldTetrimino_def mk_def list_ex_iff)

lemma goldLineCleared_foldl_clearStep:
  "\<forall>row\<in>set g. row \<noteq> [] \<Longrightarrow>
   goldLineCleared (foldl (clearStep goldTetrimino) st g) =
     (goldLineCleared st \<or> (linesCleared st = 0 \<and> filter complete g \<noteq> []))"
proof (induction g arbitrary: st)
  case Nil
  show ?case by simp
next
  case (Cons row g)
  then show ?case
    by (auto simp: clearStep_def Let_def goldLine_template)
qed

lemma index_0: "index g 0 = (case g of [] \<Rightarrow> None | row0 # rest \<Rightarrow> Some row0)"
  by (cases g) (simp_all add: index_def)

lemma clearLines_Cons:
  "clearLines (row0 # g) gold =
     Inr \<lparr>cgrid = replicate (length (filter complete (row0 # g))) (replicate (length row0) False)
                    @ filter (\<lambda>row. \<not> complete row) (row0 # g),
          linesCleared = length (filter complete (row0 # g)),
          goldLineCleared = goldLineCleared
             (foldl (clearStep gold) \<lparr>cgrid = [], linesCleared = 0, goldLineCleared = False\<rparr> (row0 # g))\<rparr>"
  unfolding clearLines_def Let_def index_0 emptyRow_def
  by (simp only: list.case option.case cgrid_foldl_clearStep linesCleared_foldl_clearStep) simp

lemma clearLines_Nil: "clearLines [] gold = Inl TypeError"
  by (simp add: clearLines_def index_def)

lemma length_filter_split:
  "length (filter P xs) + length (filter (\<lambda>a. \<not> P a) xs) = length xs"
  by (induction xs) simp_all

lemma clearLines_rows:
  assumes "g \<noteq> []" and "\<forall>row\<in>set g. length row = w"
  obtains r where "clearLines g gold = Inr r"
    and "linesCleared r = length (filter complete g)"
    and "cgrid r = replicate (length (filter complete g)) (replicate w False)
                          @ filter (\<lambda>row. \<not> complete row) g"
proof -
  from assms(1) obtain row0 rest where g: "g = row0 # rest"
    by (cases g) auto
  with assms(2) have w: "length row0 = w"
    by simp
  show ?thesis
    using that clearLines_Cons [of row0 rest gold] unfolding g w by simp
qed

text \<open>
  C6. On a grid with at least one row, all rows of one width \<open>w\<close>, \<^verbatim>\<open>clearLines\<close>
  returns; it counts exactly the complete rows (every cell occupied); the grid it
  returns is that many all-false rows of width \<open>w\<close> followed by the rows that are not
  complete, in their order; and it has as many rows as the input. (On the grid
  without rows \<^verbatim>\<open>grid[0].length\<close> throws: \<open>clearLines_Nil\<close>.)
\<close>

theorem clearLines_conservation:
  assumes "g \<noteq> []" and "\<forall>row\<in>set g. length row = w"
  shows "\<exists>r. clearLines g gold = Inr r
           \<and> linesCleared r = length (filter complete g)
           \<and> cgrid r = replicate (linesCleared r) (replicate w False)
                         @ filter (\<lambda>row. \<not> complete row) g
           \<and> length (cgrid r) = length g"
proof -
  from assms obtain r where r: "clearLines g gold = Inr r"
    and lines: "linesCleared r = length (filter complete g)"
    and rows: "cgrid r = replicate (length (filter complete g)) (replicate w False)
                          @ filter (\<lambda>row. \<not> complete row) g"
    by (rule clearLines_rows)
  have "length (cgrid r) = length g"
    unfolding rows using length_filter_split [of complete g] by simp
  with r lines rows show ?thesis
    by simp
qed

theorem clearLines_conservation_witness:
  "[[True, True], [False, True], [True, True]] \<noteq> []
   \<and> list_all (\<lambda>row. length row = 2) [[True, True], [False, True], [True, True]]
   \<and> map_sum id cgrid (clearLines [[True, True], [False, True], [True, True]] goldTetrimino)
       = Inr [[False, False], [False, False], [False, True]]
   \<and> map_sum id linesCleared (clearLines [[True, True], [False, True], [True, True]] goldTetrimino)
       = Inr 2"
proof -
  have 1: "[[True, True], [False, True], [True, True]] \<noteq> []"
    by simp
  have 2: "\<forall>row\<in>set [[True, True], [False, True], [True, True]]. length row = 2"
    by simp
  have 3: "map_sum id cgrid (clearLines [[True, True], [False, True], [True, True]] goldTetrimino)
       = Inr [[False, False], [False, False], [False, True]]"
    and 4: "map_sum id linesCleared (clearLines [[True, True], [False, True], [True, True]] goldTetrimino)
       = Inr 2"
    by code_simp+
  from clearLines_conservation [OF 1 2, of goldTetrimino] 3 4 show ?thesis
    by simp
qed

subsection \<open>The gold flag\<close>

text \<open>
  C9. With the global template \<open>goldTetrimino\<close> (the one block at column 0, row 0),
  on a grid with at least one row and no row of width 0, \<^verbatim>\<open>clearLines\<close> reports a
  gold line exactly when it cleared at least one line.
\<close>

theorem clearLines_gold_iff_cleared:
  assumes "g \<noteq> []" and "\<forall>row\<in>set g. row \<noteq> []"
  shows "\<exists>r. clearLines g goldTetrimino = Inr r \<and> (goldLineCleared r \<longleftrightarrow> 1 \<le> linesCleared r)"
proof -
  from assms(1) obtain row0 rest where g: "g = row0 # rest"
    by (cases g) auto
  have gold: "goldLineCleared (foldl (clearStep goldTetrimino)
          \<lparr>cgrid = [], linesCleared = 0, goldLineCleared = False\<rparr> g)
        = (filter complete g \<noteq> [])"
    using goldLineCleared_foldl_clearStep [OF assms(2)] by simp
  obtain r where r: "clearLines g goldTetrimino = Inr r"
    and lines: "linesCleared r = length (filter complete g)"
    and flag: "goldLineCleared r = (filter complete g \<noteq> [])"
    unfolding g using clearLines_Cons [of row0 rest goldTetrimino] gold [unfolded g] by simp
  have "(filter complete g \<noteq> []) = (1 \<le> length (filter complete g))"
    by (cases "filter complete g") simp_all
  with r lines flag show ?thesis
    by simp
qed

theorem clearLines_gold_iff_cleared_witness:
  "[[True, True], [False, True], [True, True]] \<noteq> []
   \<and> list_all (\<lambda>row. row \<noteq> []) [[True, True], [False, True], [True, True]]
   \<and> map_sum id goldLineCleared (clearLines [[True, True], [False, True], [True, True]] goldTetrimino)
       = Inr True
   \<and> map_sum id linesCleared (clearLines [[True, True], [False, True], [True, True]] goldTetrimino)
       = Inr 2"
proof -
  have 1: "[[True, True], [False, True], [True, True]] \<noteq> []"
    by simp
  have 2: "\<forall>row\<in>set [[True, True], [False, True], [True, True]]. row \<noteq> []"
    by simp
  have 3: "map_sum id linesCleared (clearLines [[True, True], [False, True], [True, True]] goldTetrimino)
       = Inr 2"
    by code_simp
  from clearLines_gold_iff_cleared [OF 1 2] 3 show ?thesis
    by auto
qed

subsection \<open>Landing into game over\<close>

text \<open>
  C10. When the state is not paused and the promoted next piece collides with the
  grid that \<^verbatim>\<open>clearLines\<close> returned, \<^verbatim>\<open>processCollision\<close> returns the input state
  with \<open>gameOver\<close>, \<open>userScore\<close> and \<open>highScore\<close> set and nothing else changed: the
  grid (the piece is not merged, no row is removed), the current piece and the
  level are those of the input.
\<close>

theorem processCollision_gameOver_frame:
  assumes "\<not> paused s"
    and "clearLines (placeTetrimino (currentTetrimino s) (grid s)) goldTetrimino = Inr cl"
    and "isCollisionDetected (nextTetrimino s) (cgrid cl) = Inr True"
  shows "\<exists>s'. processCollision s = Inr s'
           \<and> grid s' = grid s
           \<and> currentTetrimino s' = currentTetrimino s
           \<and> userLevel s' = userLevel s
           \<and> s' = s\<lparr>gameOver := True, userScore := userScore s', highScore := highScore s'\<rparr>"
  using assms by (simp add: processCollision_def Let_def)

theorem processCollision_gameOver_frame_witness:
  "\<not> paused stackedState
   \<and> isCollisionDetected (nextTetrimino stackedState)
        (cgrid (projr (clearLines (placeTetrimino (currentTetrimino stackedState) (grid stackedState))
           goldTetrimino))) = Inr True
   \<and> processCollision stackedState = Inr (stackedState\<lparr>gameOver := True\<rparr>)"
proof -
  have 1: "\<not> paused stackedState"
    by code_simp
  have 2: "clearLines (placeTetrimino (currentTetrimino stackedState) (grid stackedState)) goldTetrimino
        = Inr (projr (clearLines (placeTetrimino (currentTetrimino stackedState) (grid stackedState))
           goldTetrimino))"
    by code_simp
  have 3: "isCollisionDetected (nextTetrimino stackedState)
        (cgrid (projr (clearLines (placeTetrimino (currentTetrimino stackedState) (grid stackedState))
           goldTetrimino))) = Inr True"
    by code_simp
  have 4: "processCollision stackedState = Inr (stackedState\<lparr>gameOver := True\<rparr>)"
    by code_simp
  from processCollision_gameOver_frame [OF 1 2 3] 1 3 4 show ?thesis
    by simp
qed

subsection \<open>The shape of the grid\<close>

text \<open>Placement and line clearing keep the shape of the grid, so every action does.\<close>

lemma length_placeBlock: "map length (placeBlock g block) = map length g"
  by (auto simp: placeBlock_def enumerate_eq_zip intro!: nth_equalityI)

lemma length_placeTetrimino: "map length (placeTetrimino t g) = map length g"
  unfolding placeTetrimino_def
  by (induction t arbitrary: g) (simp_all add: length_placeBlock)

lemma gridShape_map_length: "gridShape g = (length (map length g) = 20 \<and> (\<forall>n\<in>set (map length g). n = 10))"
  by (auto simp: gridShape_def)

lemma gridShape_placeTetrimino: "gridShape (placeTetrimino t g) = gridShape g"
  by (simp only: gridShape_map_length length_placeTetrimino)

lemma gridShape_clearLines:
  assumes "gridShape g" and "clearLines g gold = Inr cl"
  shows "gridShape (cgrid cl)"
proof -
  from assms(1) have ne: "g \<noteq> []" and rows: "\<forall>row\<in>set g. length row = 10" and len: "length g = 20"
    by (auto simp: gridShape_def)
  from clearLines_rows [OF ne rows, of gold] assms(2)
  have cl: "cgrid cl = replicate (length (filter complete g)) (replicate 10 False)
                          @ filter (\<lambda>row. \<not> complete row) g"
    by auto
  have "length (cgrid cl) = 20"
    unfolding cl using length_filter_split [of complete g] len by simp
  moreover have "\<forall>row\<in>set (cgrid cl). length row = 10"
    unfolding cl using rows by auto
  ultimately show ?thesis
    by (simp add: gridShape_def)
qed

lemma gridShape_processCollision:
  assumes "gridShape (grid s)" and "processCollision s = Inr s'"
  shows "gridShape (grid s')"
proof (cases "paused s")
  case True
  with assms show ?thesis
    by (simp add: processCollision_def)
next
  case False
  let ?newGrid = "placeTetrimino (currentTetrimino s) (grid s)"
  from assms(2) False obtain cl where cl: "clearLines ?newGrid goldTetrimino = Inr cl"
    by (cases "clearLines ?newGrid goldTetrimino") (simp_all add: processCollision_def Let_def)
  from assms(1) have "gridShape ?newGrid"
    by (simp add: gridShape_placeTetrimino)
  then have "gridShape (cgrid cl)"
    using cl by (rule gridShape_clearLines)
  from assms(2) False cl have "grid s' = grid s \<or> grid s' = cgrid cl"
    by (auto simp: processCollision_def Let_def split: sum.splits bool.splits)
  with assms(1) \<open>gridShape (cgrid cl)\<close> show ?thesis
    by auto
qed

lemma gridShape_initialState: "gridShape (grid (initialState d1 d2))"
  by (simp add: initialState_def gridShape_def)

lemma gridShape_Tick:
  "gridShape (grid s) \<Longrightarrow> Tick_apply elapsed d s = Inr s' \<Longrightarrow> gridShape (grid s')"
  by (auto simp: Tick_apply_def Let_def split: sum.splits bool.splits dest: gridShape_processCollision)

lemma gridShape_moveTetriminoDown:
  "gridShape (grid s) \<Longrightarrow> moveTetriminoDown_apply d s = Inr s' \<Longrightarrow> gridShape (grid s')"
  by (auto simp: moveTetriminoDown_apply_def Let_def split: sum.splits if_splits
        dest: gridShape_processCollision)

lemma gridShape_moveTetriminoLeft:
  "gridShape (grid s) \<Longrightarrow> moveTetriminoLeft_apply s = Inr s' \<Longrightarrow> gridShape (grid s')"
  by (auto simp: moveTetriminoLeft_apply_def Let_def split: sum.splits if_splits)

lemma gridShape_moveTetriminoRight:
  "gridShape (grid s) \<Longrightarrow> moveTetriminoRight_apply s = Inr s' \<Longrightarrow> gridShape (grid s')"
  by (auto simp: moveTetriminoRight_apply_def Let_def split: sum.splits if_splits)

lemma gridShape_Rotate:
  "gridShape (grid s) \<Longrightarrow> Rotate_apply s = Inr s' \<Longrightarrow> gridShape (grid s')"
  by (auto simp: Rotate_apply_def Let_def split: sum.splits if_splits)

lemma gridShape_instantDROP:
  "gridShape (grid s) \<Longrightarrow> instantDROP_apply d s = Some (Inr s') \<Longrightarrow> gridShape (grid s')"
  by (auto simp: instantDROP_apply_def Let_def split: option.splits sum.splits bool.splits
        dest: gridShape_processCollision)

lemma gridShape_applyAction:
  "gridShape (grid s) \<Longrightarrow> applyAction d1 d2 a s = Some (Inr s') \<Longrightarrow> gridShape (grid s')"
proof (cases a)
  case (Tick elapsed d)
  assume "gridShape (grid s)" "applyAction d1 d2 a s = Some (Inr s')"
  with Tick show ?thesis by (auto dest: gridShape_Tick)
next
  case moveTetriminoLeft
  assume "gridShape (grid s)" "applyAction d1 d2 a s = Some (Inr s')"
  with moveTetriminoLeft show ?thesis by (auto dest: gridShape_moveTetriminoLeft)
next
  case moveTetriminoRight
  assume "gridShape (grid s)" "applyAction d1 d2 a s = Some (Inr s')"
  with moveTetriminoRight show ?thesis by (auto dest: gridShape_moveTetriminoRight)
next
  case (moveTetriminoDown d)
  assume "gridShape (grid s)" "applyAction d1 d2 a s = Some (Inr s')"
  with moveTetriminoDown show ?thesis by (auto dest: gridShape_moveTetriminoDown)
next
  case Rotate
  assume "gridShape (grid s)" "applyAction d1 d2 a s = Some (Inr s')"
  with Rotate show ?thesis by (auto dest: gridShape_Rotate)
next
  case (instantDROP d)
  assume "gridShape (grid s)" "applyAction d1 d2 a s = Some (Inr s')"
  with instantDROP show ?thesis by (auto dest: gridShape_instantDROP)
next
  case Restart
  assume "gridShape (grid s)" "applyAction d1 d2 a s = Some (Inr s')"
  with Restart show ?thesis by (auto simp: Restart_apply_def gridShape_initialState)
next
  case (TogglePauseResume isPaused)
  assume "gridShape (grid s)" "applyAction d1 d2 a s = Some (Inr s')"
  with TogglePauseResume show ?thesis by (auto simp: TogglePauseResume_apply_def)
qed

text \<open>
  C7. Every state reachable from the initial state by any sequence of actions (each
  of the eight kinds, with any draws, from any object) has a grid of exactly
  \<open>GRID_HEIGHT\<close> rows, every row of exactly \<open>GRID_WIDTH\<close> cells.
\<close>

theorem reachable_grid_dimensions:
  assumes "reachable d1 d2 s"
  shows "int (length (grid s)) = GRID_HEIGHT \<and> (\<forall>row\<in>set (grid s). int (length row) = GRID_WIDTH)"
proof -
  from assms have "gridShape (grid s)"
  proof (induction rule: reachable.induct)
    case initial
    show ?case by (rule gridShape_initialState)
  next
    case (step s a s')
    then show ?case by (blast intro: gridShape_applyAction)
  qed
  then show ?thesis
    by (simp add: gridShape_def GRID_HEIGHT_def GRID_WIDTH_def)
qed

theorem reachable_grid_dimensions_witness:
  "reachable (0, 50) (1, 50) landedState
   \<and> int (length (grid landedState)) = GRID_HEIGHT
   \<and> list_all (\<lambda>row. int (length row) = GRID_WIDTH) (grid landedState)"
proof -
  have "reachable (0, 50) (1, 50) startState"
    unfolding startState_def by (rule reachable.initial) (simp_all add: valid_draw_def)
  moreover have "validAction (instantDROP (2, 50))"
    by (simp add: valid_draw_def)
  moreover have "applyAction (0, 50) (1, 50) (instantDROP (2, 50)) startState = Some (Inr droppedState)"
    by code_simp
  ultimately have "reachable (0, 50) (1, 50) droppedState"
    by (rule reachable.step)
  moreover have "validAction (Tick 0 (3, 50))"
    by (simp add: valid_draw_def)
  moreover have "applyAction (0, 50) (1, 50) (Tick 0 (3, 50)) droppedState = Some (Inr landedState)"
    by code_simp
  ultimately have r: "reachable (0, 50) (1, 50) landedState"
    by (rule reachable.step)
  from reachable_grid_dimensions [OF r] r show ?thesis
    by (simp add: list_all_iff)
qed

subsection \<open>The instant drop\<close>

text \<open>The collision check on pieces whose rows are not negative, and the loop.\<close>

lemma isCollisionDetected_returns:
  "\<forall>b\<in>set t. 0 \<le> y b \<Longrightarrow> GRID_HEIGHT \<le> int (length g) \<Longrightarrow> \<exists>c. isCollisionDetected t g = Inr c"
  by (induction t) (auto simp: index_def)

lemma isCollisionDetected_False_rows:
  "isCollisionDetected t g = Inr False \<Longrightarrow> \<forall>b\<in>set t. 0 \<le> y b \<and> y b < GRID_HEIGHT"
  by (induction t) (auto simp: index_def split: if_splits option.splits)

lemma up_down: "up (down t) = t"
  by (simp add: up_def down_def comp_def)

lemma down_rows: "\<forall>b\<in>set t. 0 \<le> y b \<Longrightarrow> \<forall>b\<in>set (down t). 0 \<le> y b"
  by (auto simp: down_def)

lemma hd_down: "t \<noteq> [] \<Longrightarrow> y (hd (down t)) = y (hd t) + 1"
  by (cases t) (simp_all add: down_def)

lemma down_Nil: "(down t = []) = (t = [])"
  by (simp add: down_def)

lemma dropLoop_returns:
  assumes "t \<noteq> []" and "\<forall>b\<in>set t. 0 \<le> y b" and "GRID_HEIGHT \<le> int (length g)"
  shows "\<exists>n. dropLoop t g = Some (Inr ((down ^^ n) t))
           \<and> isCollisionDetected ((down ^^ n) t) g = Inr True
           \<and> (\<forall>j<n. isCollisionDetected ((down ^^ j) t) g = Inr False)"
  using assms
proof (induction "nat (GRID_HEIGHT - y (hd t))" arbitrary: t rule: less_induct)
  case less
  from isCollisionDetected_returns [OF less.prems(2,3)]
  obtain c where c: "isCollisionDetected t g = Inr c"
    by blast
  show ?case
  proof (cases c)
    case True
    with c have "dropLoop t g = Some (Inr ((down ^^ 0) t))"
      by (subst dropLoop.simps) simp
    moreover from c True have "isCollisionDetected ((down ^^ 0) t) g = Inr True"
      by simp
    ultimately show ?thesis
      by (intro exI [of _ 0]) simp
  next
    case False
    with c have free: "isCollisionDetected t g = Inr False"
      by simp
    from isCollisionDetected_False_rows [OF free] less.prems(1)
    have "y (hd t) < GRID_HEIGHT"
      by simp
    then have smaller: "nat (GRID_HEIGHT - y (hd (down t))) < nat (GRID_HEIGHT - y (hd t))"
      using less.prems(1) by (simp add: hd_down)
    from less.hyps [OF smaller _ down_rows [OF less.prems(2)] less.prems(3)] less.prems(1)
    obtain n where n: "dropLoop (down t) g = Some (Inr ((down ^^ n) (down t)))"
      "isCollisionDetected ((down ^^ n) (down t)) g = Inr True"
      "\<forall>j<n. isCollisionDetected ((down ^^ j) (down t)) g = Inr False"
      by (auto simp: down_Nil)
    from free n(1) have "dropLoop t g = Some (Inr ((down ^^ Suc n) t))"
      by (subst dropLoop.simps) (simp add: funpow_swap1)
    moreover from n(2) have "isCollisionDetected ((down ^^ Suc n) t) g = Inr True"
      by (simp add: funpow_swap1)
    moreover have "\<forall>j<Suc n. isCollisionDetected ((down ^^ j) t) g = Inr False"
    proof (intro allI impI)
      fix j assume "j < Suc n"
      show "isCollisionDetected ((down ^^ j) t) g = Inr False"
      proof (cases j)
        case 0
        with free show ?thesis by simp
      next
        case (Suc k)
        with \<open>j < Suc n\<close> n(3) show ?thesis by (simp add: funpow_swap1)
      qed
    qed
    ultimately show ?thesis
      by blast
  qed
qed

text \<open>What the source does in general. From a state whose piece is not empty, does not
  collide and can descend at least one row without collision, on a grid of at least
  \<open>GRID_HEIGHT\<close> rows, \<^verbatim>\<open>instantDROP\<close> returns, and it returns the state with the
  piece moved down \<open>n \<ge> 1\<close> rows and a new preview, all other fields unchanged: every
  position on the way down to \<open>n\<close> is free and the next one collides. The test that
  guards the call of \<^verbatim>\<open>processCollision\<close> looks at the piece after it has been moved
  back up to a free row, so the call is not reached.\<close>

lemma instantDROP_moves_to_floor:
  assumes "currentTetrimino s \<noteq> []"
    and "GRID_HEIGHT \<le> int (length (grid s))"
    and "isCollisionDetected (currentTetrimino s) (grid s) = Inr False"
    and "isCollisionDetected (down (currentTetrimino s)) (grid s) = Inr False"
  shows "\<exists>n\<ge>1. instantDROP_apply d s =
             Some (Inr (s\<lparr>currentTetrimino := (down ^^ n) (currentTetrimino s),
                          nextTetrimino := generateANewTetrimino d\<rparr>))
           \<and> (\<forall>j\<le>n. isCollisionDetected ((down ^^ j) (currentTetrimino s)) (grid s) = Inr False)
           \<and> isCollisionDetected ((down ^^ Suc n) (currentTetrimino s)) (grid s) = Inr True"
proof -
  let ?t = "currentTetrimino s" and ?g = "grid s"
  from isCollisionDetected_False_rows [OF assms(3)] have "\<forall>b\<in>set ?t. 0 \<le> y b"
    by simp
  from dropLoop_returns [OF assms(1) this assms(2)]
  obtain m where m: "dropLoop ?t ?g = Some (Inr ((down ^^ m) ?t))"
    "isCollisionDetected ((down ^^ m) ?t) ?g = Inr True"
    "\<forall>j<m. isCollisionDetected ((down ^^ j) ?t) ?g = Inr False"
    by blast
  have "m \<noteq> 0"
  proof
    assume "m = 0"
    with m(2) assms(3) show False by simp
  qed
  moreover have "m \<noteq> 1"
  proof
    assume "m = 1"
    with m(2) assms(4) show False by simp
  qed
  ultimately obtain n where n: "m = Suc n" "1 \<le> n"
    by (cases m) auto
  from m(3) n(1) have free: "\<forall>j\<le>n. isCollisionDetected ((down ^^ j) ?t) ?g = Inr False"
    by (simp add: less_Suc_eq_le)
  then have last: "isCollisionDetected ((down ^^ n) ?t) ?g = Inr False"
    by simp
  have "up ((down ^^ m) ?t) = (down ^^ n) ?t"
    unfolding n(1) by (simp add: up_down)
  with m(1) last have "instantDROP_apply d s =
      Some (Inr (s\<lparr>currentTetrimino := (down ^^ n) ?t, nextTetrimino := generateANewTetrimino d\<rparr>))"
    by (simp add: instantDROP_apply_def)
  with n(2) free m(2) [unfolded n(1)] show ?thesis
    by blast
qed

text \<open>
  C4. The claim: from a state whose piece can descend, \<^verbatim>\<open>instantDROP\<close> moves the
  piece to the last free position and runs the landing sequence (merge, clear,
  score, promote the next piece) in the same transition. \<^verbatim>\<open>instantDROP.apply\<close> holds
  the call \<^verbatim>\<open>processCollision(s)\<close> ("Process collision if detected") and does not
  reach it: on \<open>startState\<close> the piece can descend, and the source returns
  \<open>droppedState\<close>, where the piece stands on the floor, the grid is still the empty
  grid and the current piece has not been replaced; the transition of the claim
  (\<open>instantDrop_spec\<close>) returns the merged grid with the promoted piece. On
  \<open>droppedState\<close> itself the drop key only draws a new preview, while \<^verbatim>\<open>Tick\<close> lands
  the piece there.
\<close>

theorem instantDROP_does_not_land:
  "isCollisionDetected (currentTetrimino startState) (grid startState) = Inr False
   \<and> isCollisionDetected (down (currentTetrimino startState)) (grid startState) = Inr False
   \<and> instantDROP_apply (2, 50) startState = Some (Inr droppedState)
   \<and> grid droppedState = grid startState
   \<and> instantDrop_spec (2, 50) startState =
        Some (Inr (landedState\<lparr>currentTetrimino := generateANewTetrimino (1, 50),
                                nextTetrimino := generateANewTetrimino (2, 50)\<rparr>))
   \<and> instantDROP_apply (2, 50) startState \<noteq> instantDrop_spec (2, 50) startState
   \<and> instantDROP_apply (3, 50) droppedState =
        Some (Inr (droppedState\<lparr>nextTetrimino := generateANewTetrimino (3, 50)\<rparr>))
   \<and> Tick_apply 0 (3, 50) droppedState = Inr landedState"
  by code_simp

end
